theory Spec2Isabelle
  imports Complex_Main "HOL-Library.Word"
begin

unbundle bit_operations_syntax

section \<open>The type-erased parameter holder (ie\_rtti.cpp, ie\_parameter.hpp)\<close>

subsection \<open>Types and values\<close>

text \<open>
  \<open>std::type_info\<close> objects are compared with \<open>==\<close>, which holds exactly for the same
  type. The datatype below names the (cv-unqualified) object types: the arithmetic types,
  \<open>std::string\<close>, vectors, tuples, shared pointers and classes by name. Two of its
  values are equal exactly when they are the same constructor term, so \<open>int\<close> and
  \<open>long\<close> are different types; on these types \<open>typeid(T) == typeid(U)\<close> and
  \<open>std::is_same<T, U>\<close> both are this equality.
\<close>

datatype type_info =
    T_bool
  | T_signed_char
  | T_unsigned_char
  | T_short
  | T_unsigned_short
  | T_int
  | T_unsigned_int
  | T_long
  | T_unsigned_long
  | T_long_long
  | T_float
  | T_double
  | T_string
  | T_vector type_info
  | T_tuple "type_info list"
  | T_shared_ptr type_info
  | T_class string

text \<open>
  The values a \<open>RealData<T>\<close> is instantiated for in ie\_rtti.cpp (lines 108 to 119,
  and the \<open>operator==\<close> instantiations of lines 152 and 153). Integers are machine
  words; a \<open>float\<close> is its IEEE-754 binary32 bit pattern; a \<open>Blob::Ptr\<close> is the address
  it points to (\<open>None\<close> for a null pointer).
\<close>

datatype cpp_value =
    V_int "32 word"
  | V_bool bool
  | V_float "32 word"
  | V_uint32_t "32 word"
  | V_string string
  | V_unsigned_long "64 word"
  | V_vector_int "32 word list"
  | V_vector_string "string list"
  | V_vector_unsigned_long "64 word list"
  | V_vector_unsigned_int "32 word list"
  | V_vector_float "32 word list"
  | V_tuple2 "32 word" "32 word"
  | V_tuple3 "32 word" "32 word" "32 word"
  | V_Blob_Ptr "nat option"

text \<open>\<open>typeid(T)\<close> for the static type \<open>T\<close> of a value.\<close>

fun typeid :: "cpp_value \<Rightarrow> type_info" where
  "typeid (V_int _) = T_int"
| "typeid (V_bool _) = T_bool"
| "typeid (V_float _) = T_float"
| "typeid (V_uint32_t _) = T_unsigned_int"
| "typeid (V_string _) = T_string"
| "typeid (V_unsigned_long _) = T_unsigned_long"
| "typeid (V_vector_int _) = T_vector T_int"
| "typeid (V_vector_string _) = T_vector T_string"
| "typeid (V_vector_unsigned_long _) = T_vector T_unsigned_long"
| "typeid (V_vector_unsigned_int _) = T_vector T_unsigned_int"
| "typeid (V_vector_float _) = T_vector T_float"
| "typeid (V_tuple2 _ _) = T_tuple [T_unsigned_int, T_unsigned_int]"
| "typeid (V_tuple3 _ _ _) = T_tuple [T_unsigned_int, T_unsigned_int, T_unsigned_int]"
| "typeid (V_Blob_Ptr _) = T_shared_ptr (T_class ''InferenceEngine::Blob'')"

text \<open>
  The comparison \<open>==\<close> of \<open>float\<close>, on bit patterns: a NaN (exponent all ones, fraction
  not zero) is equal to nothing, the two zeros are equal, and any other two values are
  equal exactly when their bits are.
\<close>

definition float_isnan :: "32 word \<Rightarrow> bool" where
  "float_isnan w = (w AND 0x7F800000 = 0x7F800000 \<and> w AND 0x007FFFFF \<noteq> 0)"

definition float_eq :: "32 word \<Rightarrow> 32 word \<Rightarrow> bool" where
  "float_eq a b =
     (\<not> float_isnan a \<and> \<not> float_isnan b \<and>
      (a = b \<or> (a AND 0x7FFFFFFF = 0 \<and> b AND 0x7FFFFFFF = 0)))"

text \<open>
  The held type's own \<open>operator==\<close>, for each type of the universe:
  \<open>std::vector\<close> compares the sizes and then the elements in order, \<open>std::tuple\<close>
  the components, \<open>std::shared_ptr\<close> the addresses. Values of two different types
  are never compared by the holder (the type check comes first); for them the result
  is \<open>False\<close>.
\<close>

definition op_eq :: "cpp_value \<Rightarrow> cpp_value \<Rightarrow> bool" where
  "op_eq x y =
     (case x of
        V_int a \<Rightarrow> (case y of V_int b \<Rightarrow> a = b | _ \<Rightarrow> False)
      | V_bool a \<Rightarrow> (case y of V_bool b \<Rightarrow> a = b | _ \<Rightarrow> False)
      | V_float a \<Rightarrow> (case y of V_float b \<Rightarrow> float_eq a b | _ \<Rightarrow> False)
      | V_uint32_t a \<Rightarrow> (case y of V_uint32_t b \<Rightarrow> a = b | _ \<Rightarrow> False)
      | V_string a \<Rightarrow> (case y of V_string b \<Rightarrow> a = b | _ \<Rightarrow> False)
      | V_unsigned_long a \<Rightarrow> (case y of V_unsigned_long b \<Rightarrow> a = b | _ \<Rightarrow> False)
      | V_vector_int a \<Rightarrow> (case y of V_vector_int b \<Rightarrow> a = b | _ \<Rightarrow> False)
      | V_vector_string a \<Rightarrow> (case y of V_vector_string b \<Rightarrow> a = b | _ \<Rightarrow> False)
      | V_vector_unsigned_long a \<Rightarrow> (case y of V_vector_unsigned_long b \<Rightarrow> a = b | _ \<Rightarrow> False)
      | V_vector_unsigned_int a \<Rightarrow> (case y of V_vector_unsigned_int b \<Rightarrow> a = b | _ \<Rightarrow> False)
      | V_vector_float a \<Rightarrow> (case y of V_vector_float b \<Rightarrow> list_all2 float_eq a b | _ \<Rightarrow> False)
      | V_tuple2 a1 a2 \<Rightarrow> (case y of V_tuple2 b1 b2 \<Rightarrow> a1 = b1 \<and> a2 = b2 | _ \<Rightarrow> False)
      | V_tuple3 a1 a2 a3 \<Rightarrow> (case y of V_tuple3 b1 b2 b3 \<Rightarrow> a1 = b1 \<and> a2 = b2 \<and> a3 = b3 | _ \<Rightarrow> False)
      | V_Blob_Ptr a \<Rightarrow> (case y of V_Blob_Ptr b \<Rightarrow> a = b | _ \<Rightarrow> False))"

subsection \<open>The backing cell and the free store\<close>

text \<open>
  \<open>RealData<T>\<close> holds one value of type \<open>T\<close> (\<open>get()\<close> reads it); the template
  argument is the static type of that value.
\<close>

datatype RealData = RealData (get: cpp_value)

text \<open>
  \<open>Parameter\<close> has the single member \<open>Any* ptr\<close>. The free store is a list of cells:
  an address is an index, a cell is \<open>None\<close> once it has been deleted, and \<open>new\<close>
  takes the next index.
\<close>

type_synonym addr = nat

type_synonym heap = "RealData option list"

record Parameter =
  ptr :: "addr option"

definition deref :: "heap \<Rightarrow> addr \<Rightarrow> RealData" where
  "deref h a = the (h ! a)"

definition live :: "heap \<Rightarrow> addr \<Rightarrow> bool" where
  "live h a = (a < length h \<and> h ! a \<noteq> None)"

definition new :: "heap \<Rightarrow> RealData \<Rightarrow> heap \<times> addr" where
  "new h d = (h @ [Some d], length h)"

definition delete :: "heap \<Rightarrow> addr \<Rightarrow> heap" where
  "delete h a = h[a := None]"

text \<open>A container is well formed when it is empty or points to a live cell.\<close>

definition valid :: "heap \<Rightarrow> Parameter \<Rightarrow> bool" where
  "valid h p = (case ptr p of None \<Rightarrow> True | Some a \<Rightarrow> live h a)"

subsection \<open>The type check and the comparison of cells (ie\_rtti.cpp)\<close>

text \<open>
  Modelled from the spec: \<open>Parameter::empty\<close>, declared in ie\_parameter.hpp
  (``\<open>empty() -> bool\<close>: true iff no value is held'').
\<close>

definition Parameter_empty :: "Parameter \<Rightarrow> bool" where
  "Parameter_empty p = (ptr p = None)"

text \<open>\<open>RealData<T>::is\<close>, lines 98 to 101: \<open>return id == typeid(T);\<close>\<close>

definition RealData_is :: "RealData \<Rightarrow> type_info \<Rightarrow> bool" where
  "RealData_is d ti = (ti = typeid (get d))"

text \<open>\<open>Parameter::is\<close>, lines 93 to 96: \<open>return empty() ? false : ptr->is(typeid(T));\<close>\<close>

definition Parameter_is :: "heap \<Rightarrow> Parameter \<Rightarrow> type_info \<Rightarrow> bool" where
  "Parameter_is h p t =
     (if Parameter_empty p then False else RealData_is (deref h (the (ptr p))) t)"

text \<open>
  Modelled from the spec: the helper \<open>equal<T>\<close> of ie\_parameter.hpp, which
  ``delegates to the held type's own equality comparison''.
\<close>

definition equal_T :: "RealData \<Rightarrow> RealData \<Rightarrow> bool" where
  "equal_T left rhs = op_eq (get left) (get rhs)"

text \<open>
  \<open>RealData<T>::operator==\<close>, lines 103 to 106:
  \<open>return rhs.is(typeid(T)) && equal<T>(*this, rhs);\<close>
\<close>

definition RealData_eq :: "RealData \<Rightarrow> RealData \<Rightarrow> bool" where
  "RealData_eq this rhs = (RealData_is rhs (typeid (get this)) \<and> equal_T this rhs)"

subsection \<open>Construction, release, retrieval, comparison and copy (ie\_parameter.hpp)\<close>

text \<open>
  Modelled from the spec: \<open>construct_empty\<close>, the default constructor of ie\_parameter.hpp
  (``produces a container holding nothing'').
\<close>

definition Parameter_construct_empty :: Parameter where
  "Parameter_construct_empty = \<lparr>ptr = None\<rparr>"

text \<open>
  Modelled from the spec: \<open>construct\<close>, the converting constructor of ie\_parameter.hpp
  (``captures \<open>value\<close> by copy, records its concrete type \<open>T\<close>; no error conditions;
  always succeeds''): a new backing cell \<open>RealData<T>\<close> holding the value.
\<close>

definition Parameter_construct :: "heap \<Rightarrow> cpp_value \<Rightarrow> heap \<times> Parameter" where
  "Parameter_construct h v = (case new h (RealData v) of (h', a) \<Rightarrow> (h', \<lparr>ptr = Some a\<rparr>))"

text \<open>
  Modelled from the spec: \<open>Parameter::clear\<close> of ie\_parameter.hpp (``releases the held
  value; container becomes empty; idempotent (clearing an already-empty container is a
  no-op)''): the cell is deleted and the pointer reset.
\<close>

definition Parameter_clear :: "heap \<Rightarrow> Parameter \<Rightarrow> heap \<times> Parameter" where
  "Parameter_clear h p =
     (case ptr p of
        None \<Rightarrow> (h, p)
      | Some a \<Rightarrow> (delete h a, p\<lparr>ptr := None\<rparr>))"

text \<open>
  \<open>Parameter::~Parameter\<close>, ie\_rtti.cpp lines 86 to 88: \<open>clear();\<close>. The object is gone
  afterwards; what is left is the free store.
\<close>

definition Parameter_destructor :: "heap \<Rightarrow> Parameter \<Rightarrow> heap" where
  "Parameter_destructor h p = fst (Parameter_clear h p)"

text \<open>
  Modelled from the spec: \<open>Parameter::as\<close> of ie\_parameter.hpp (``fails with a
  \<open>TypeMismatch\<close> error when \<open>is<T>()\<close> is false; otherwise returns a mutable reference
  to the held value without copying''; ``EmptyAccess: treated as a subcase of
  TypeMismatch''). The reference is the address of the container's own cell.
\<close>

datatype error = TypeMismatch

definition Parameter_as :: "heap \<Rightarrow> Parameter \<Rightarrow> type_info \<Rightarrow> error + addr" where
  "Parameter_as h p t =
     (if Parameter_is h p t then Inr (the (ptr p)) else Inl TypeMismatch)"

text \<open>Reading and assigning through a reference \<open>T&\<close> obtained from \<open>as<T>()\<close>.\<close>

definition read_ref :: "heap \<Rightarrow> addr \<Rightarrow> cpp_value" where
  "read_ref h a = get (deref h a)"

definition write_ref :: "heap \<Rightarrow> addr \<Rightarrow> cpp_value \<Rightarrow> heap" where
  "write_ref h a v = h[a := Some (RealData v)]"

text \<open>
  Modelled from the spec: \<open>Parameter::operator==\<close> of ie\_parameter.hpp (``returns false
  immediately if either side is empty and the other is not, or if held types differ;
  otherwise delegates to the held type's own equality comparison. Two empty containers
  compare equal''). For two held values the comparison is \<open>RealData<T>::operator==\<close>
  of ie\_rtti.cpp.
\<close>

definition Parameter_eq :: "heap \<Rightarrow> Parameter \<Rightarrow> Parameter \<Rightarrow> bool" where
  "Parameter_eq h this rhs =
     (case (ptr this, ptr rhs) of
        (None, None) \<Rightarrow> True
      | (None, Some b) \<Rightarrow> False
      | (Some a, None) \<Rightarrow> False
      | (Some a, Some b) \<Rightarrow> RealData_eq (deref h a) (deref h b))"





section \<open>Precision (ie\_rtti.cpp, ie\_precision.hpp)\<close>

text \<open>
  The enumerators that \<open>hasStorageType\<close> names; \<open>Other\<close> stands for every other
  enumerator of \<open>ePrecision\<close>, by its number.
\<close>

datatype ePrecision =
  FP32 | FP16 | I16 | I32 | I64 | U16 | U8 | I8 | BOOL | Q78 | BIN | Other nat

text \<open>The member \<open>precisionInfo\<close>: \<open>bitsSize\<close> is a \<open>size_t\<close>.\<close>

record Precision =
  precisionInfo_bitsSize :: "64 word"
  precisionInfo_name :: string
  precisionInfo_value :: ePrecision

text \<open>
  A template argument \<open>T\<close>: the type, \<open>sizeof(T)\<close> (a \<open>size_t\<close>) and
  \<open>typeid(T).name()\<close>.
\<close>

record template_arg =
  the_type :: type_info
  sizeof :: "64 word"
  typeid_name :: string

definition is_same :: "template_arg \<Rightarrow> type_info \<Rightarrow> bool" where
  "is_same T y = (the_type T = y)"

text \<open>The fixed-width names of \<open>cstdint\<close> on the LP64 target, and \<open>float\<close>.\<close>

definition float :: type_info where "float = T_float"
definition int8_t :: type_info where "int8_t = T_signed_char"
definition uint8_t :: type_info where "uint8_t = T_unsigned_char"
definition int16_t :: type_info where "int16_t = T_short"
definition uint16_t :: type_info where "uint16_t = T_unsigned_short"
definition int32_t :: type_info where "int32_t = T_int"
definition int64_t :: type_info where "int64_t = T_long"

text \<open>
  \<open>Precision::fromType\<close>, lines 191 to 194:
  \<open>return Precision(8 * sizeof(T), typeName == nullptr ? typeid(T).name() : typeName);\<close>
  The constructor \<open>Precision(size_t bitsSize, const char* name)\<close> is declared in
  ie\_precision.hpp; it is the first argument here. A \<open>const char*\<close> is \<open>None\<close> when it
  is null. The product is a \<open>size_t\<close> product.
\<close>

definition fromType ::
  "(64 word \<Rightarrow> string \<Rightarrow> Precision) \<Rightarrow> template_arg \<Rightarrow> string option \<Rightarrow> Precision" where
  "fromType Precision_ctor T typeName =
     Precision_ctor (8 * sizeof T) (case typeName of None \<Rightarrow> typeid_name T | Some n \<Rightarrow> n)"

text \<open>
  \<open>Precision::hasStorageType\<close>, lines 197 to 232. \<open>size()\<close> and \<open>areSameStrings\<close> are
  declared in ie\_precision.hpp and are the first two arguments; either may throw
  (\<open>Inl\<close>). \<open>name()\<close> reads \<open>precisionInfo.name\<close>. First the \<open>switch\<close>, lines 212 to
  228.
\<close>

definition hasStorageType_switch ::
  "(string \<Rightarrow> string \<Rightarrow> 'e + bool) \<Rightarrow> Precision \<Rightarrow> template_arg \<Rightarrow> string option \<Rightarrow> 'e + bool" where
  "hasStorageType_switch areSameStrings this T typeName =
     (case precisionInfo_value this of
        FP32 \<Rightarrow> Inr (is_same T float)
      | FP16 \<Rightarrow> Inr (is_same T int16_t \<or> is_same T uint16_t)
      | I16 \<Rightarrow> Inr (is_same T int16_t)
      | I32 \<Rightarrow> Inr (is_same T int32_t)
      | I64 \<Rightarrow> Inr (is_same T int64_t)
      | U16 \<Rightarrow> Inr (is_same T uint16_t)
      | U8 \<Rightarrow> Inr (is_same T uint8_t)
      | I8 \<Rightarrow> Inr (is_same T int8_t)
      | BOOL \<Rightarrow> Inr (is_same T uint8_t)
      | Q78 \<Rightarrow> Inr (is_same T int16_t \<or> is_same T uint16_t)
      | BIN \<Rightarrow> Inr (is_same T int8_t \<or> is_same T uint8_t)
      | Other k \<Rightarrow>
          areSameStrings (precisionInfo_name this)
            (case typeName of None \<Rightarrow> typeid_name T | Some n \<Rightarrow> n))"

text \<open>The \<open>try\<close> block, lines 200 to 228: the size check, then the \<open>switch\<close>.\<close>

definition hasStorageType_try ::
  "(Precision \<Rightarrow> 'e + 64 word) \<Rightarrow> (string \<Rightarrow> string \<Rightarrow> 'e + bool) \<Rightarrow>
   Precision \<Rightarrow> template_arg \<Rightarrow> string option \<Rightarrow> 'e + bool" where
  "hasStorageType_try size' areSameStrings this T typeName =
     (if precisionInfo_value this \<noteq> BIN
      then (case size' this of
              Inl e \<Rightarrow> Inl e
            | Inr n \<Rightarrow>
                if sizeof T \<noteq> n then Inr False
                else hasStorageType_switch areSameStrings this T typeName)
      else hasStorageType_switch areSameStrings this T typeName)"

text \<open>The whole function: \<open>catch (...) { return false; }\<close> around the block.\<close>

definition hasStorageType ::
  "(Precision \<Rightarrow> 'e + 64 word) \<Rightarrow> (string \<Rightarrow> string \<Rightarrow> 'e + bool) \<Rightarrow>
   Precision \<Rightarrow> template_arg \<Rightarrow> string option \<Rightarrow> 'e + bool" where
  "hasStorageType size' areSameStrings this T typeName =
     (case hasStorageType_try size' areSameStrings this T typeName of
        Inl e \<Rightarrow> Inr False
      | Inr b \<Rightarrow> Inr b)"

text \<open>
  The storage types of each enumerated precision, as a table to compare the \<open>switch\<close>
  with.
\<close>

fun listed_storage_types :: "ePrecision \<Rightarrow> type_info list" where
  "listed_storage_types FP32 = [float]"
| "listed_storage_types FP16 = [int16_t, uint16_t]"
| "listed_storage_types I16 = [int16_t]"
| "listed_storage_types I32 = [int32_t]"
| "listed_storage_types I64 = [int64_t]"
| "listed_storage_types U16 = [uint16_t]"
| "listed_storage_types U8 = [uint8_t]"
| "listed_storage_types I8 = [int8_t]"
| "listed_storage_types BOOL = [uint8_t]"
| "listed_storage_types Q78 = [int16_t, uint16_t]"
| "listed_storage_types BIN = [int8_t, uint8_t]"
| "listed_storage_types (Other k) = []"

definition enumerated :: "ePrecision \<Rightarrow> bool" where
  "enumerated v = (case v of Other k \<Rightarrow> False | _ \<Rightarrow> True)"

section \<open>The classification sample (classification\_sample\_async/main.cpp)\<close>

subsection \<open>Steps, exceptions and the trace\<close>

text \<open>
  An exception is a \<open>std::exception\<close> (with its message) or anything else; the two
  \<open>catch\<close> clauses of \<open>main\<close> tell them apart.
\<close>

datatype exn = std_exception string | unknown_exception

text \<open>
  What a run does that can be seen from outside: the \<open>ALOGI\<close> lines (format and
  arguments), the image files it opens, and the calls of \<open>InferRequest::Infer\<close>.
\<close>

datatype arg = Size nat | Double real

datatype event = ALOGI string "arg list" | ReaderPtr string | Call_Infer

text \<open>
  A statement yields a value, throws, leaves \<open>main\<close> by \<open>return\<close>, or has undefined
  behaviour (an index out of range, a null pointer followed); with it comes the trace
  of what it did.
\<close>

datatype 'a res = Val 'a | Throw exn | Return int | Undefined

type_synonym 'a step = "event list \<times> 'a res"

definition bind :: "'a step \<Rightarrow> ('a \<Rightarrow> 'b step) \<Rightarrow> 'b step" where
  "bind m f =
     (case m of
        (tr, Val x) \<Rightarrow> (case f x of (tr', r) \<Rightarrow> (tr @ tr', r))
      | (tr, Throw e) \<Rightarrow> (tr, Throw e)
      | (tr, Return c) \<Rightarrow> (tr, Return c)
      | (tr, Undefined) \<Rightarrow> (tr, Undefined))"

definition ret :: "'a \<Rightarrow> 'a step" where
  "ret x = ([], Val x)"

definition throw :: "exn \<Rightarrow> 'a step" where
  "throw e = ([], Throw e)"

definition early_return :: "int \<Rightarrow> 'a step" where
  "early_return c = ([], Return c)"

definition alogi :: "string \<Rightarrow> arg list \<Rightarrow> unit step" where
  "alogi fmt args = ([ALOGI fmt args], Val ())"

text \<open>A call into the inference library: what it returns, or the exception it throws.\<close>

definition call :: "exn + 'a \<Rightarrow> 'a step" where
  "call r = ([], case r of Inl e \<Rightarrow> Throw e | Inr v \<Rightarrow> Val v)"

text \<open>\<open>operator[]\<close> of \<open>std::vector\<close> and \<open>operator->\<close> of \<open>std::shared_ptr\<close>.\<close>

definition index :: "'a list \<Rightarrow> nat \<Rightarrow> 'a step" where
  "index xs i = ([], if i < length xs then Val (xs ! i) else Undefined)"

definition arrow :: "'a option \<Rightarrow> 'a step" where
  "arrow p = ([], case p of None \<Rightarrow> Undefined | Some x \<Rightarrow> Val x)"

text \<open>Arithmetic of \<open>size_t\<close> (64 bits).\<close>

definition size_t_mul :: "nat \<Rightarrow> nat \<Rightarrow> nat" where
  "size_t_mul a b = (a * b) mod 2 ^ 64"

definition size_t_add :: "nat \<Rightarrow> nat \<Rightarrow> nat" where
  "size_t_add a b = (a + b) mod 2 ^ 64"

subsection \<open>The inference library, as the sample sees it\<close>

text \<open>
  The objects the sample gets from the library, each with the outcome of every method
  the sample calls on it. A smart pointer is \<open>None\<close> when it is null. A buffer is its
  bytes (a null buffer has none).
\<close>

record InputInfo =
  in_setPrecision :: "exn + unit"
  in_setLayout :: "exn + unit"
  in_getDims :: "exn + nat list"

record Data =
  out_setPrecision :: "exn + unit"
  out_getDims :: "exn + nat list"

record Reader =
  getData :: "nat \<Rightarrow> nat \<Rightarrow> exn + 8 word list option"

record Blob =
  blob_getDims :: "exn + nat list"
  buffer :: "exn + 8 word list"

text \<open>
  The outcome of each call of the library, in the order \<open>main\<close> makes them. \<open>Infer\<close> and
  \<open>duration_count\<close> (the \<open>d.count()\<close> measured around it, in milliseconds) are given
  for each iteration of the inference loop.
\<close>

record env =
  getPluginByDevice :: "exn + unit"
  ReadNetwork :: "exn + unit"
  ReadWeights :: "exn + unit"
  getNetwork :: "exn + unit"
  getInputsInfo :: "exn + (string \<times> InputInfo option) list"
  FormatReader_ReaderPtr :: "string \<Rightarrow> exn + Reader option"
  setBatchSize :: "nat \<Rightarrow> exn + unit"
  getBatchSize :: "exn + nat"
  getOutputsInfo :: "exn + (string \<times> Data option) list"
  LoadNetwork :: "exn + unit"
  CreateInferRequest :: "exn + unit"
  GetBlob_input :: "string \<Rightarrow> exn + Blob option"
  Infer :: "nat \<Rightarrow> exn + unit"
  duration_count :: "nat \<Rightarrow> real"
  GetBlob_output :: "string \<Rightarrow> exn + Blob option"

subsection \<open>main\<close>

text \<open>Lines 34 and 35: the vector of image paths after the one \<open>push_back\<close>.\<close>

definition imageNames :: "string list" where
  "imageNames = [] @ [''/vendor/etc/openvino/car_resized.bmp'']"

text \<open>Lines 30 to 55.\<close>

definition load_network :: "env \<Rightarrow> unit step" where
  "load_network env =
     bind (alogi ''main() Enter'' []) (\<lambda>_.
     bind (if imageNames = [] then throw (std_exception ''No suitable images were found'')
           else ret ()) (\<lambda>_.
     bind (alogi ''Creating Inference Engine'' []) (\<lambda>_.
     bind (call (getPluginByDevice env)) (\<lambda>plugin.
     bind (alogi ''Read network files'' []) (\<lambda>_.
     bind (call (ReadNetwork env)) (\<lambda>_.
     bind (call (ReadWeights env)) (\<lambda>_.
     bind (alogi ''getNetwork files'' []) (\<lambda>_.
     call (getNetwork env)))))))))"

text \<open>Lines 60 to 71.\<close>

definition configure_input :: "env \<Rightarrow> ((string \<times> InputInfo option) list \<times> InputInfo) step" where
  "configure_input env =
     bind (alogi ''Preparing input blobs'' []) (\<lambda>_.
     bind (call (getInputsInfo env)) (\<lambda>inputInfo.
     bind (if length inputInfo \<noteq> 1
           then throw (std_exception ''Sample supports topologies with 1 input only'')
           else ret ()) (\<lambda>_.
     bind (arrow (snd (hd inputInfo))) (\<lambda>info.
     bind (call (in_setPrecision info)) (\<lambda>_.
     bind (call (in_setLayout info)) (\<lambda>_.
     ret (inputInfo, info)))))))"

text \<open>Lines 73 to 86: the loop over the image paths.\<close>

fun read_images :: "env \<Rightarrow> InputInfo \<Rightarrow> string list \<Rightarrow> 8 word list list \<Rightarrow> 8 word list list step" where
  "read_images env info [] imagesData = ret imagesData"
| "read_images env info (i # rest) imagesData =
     bind ([ReaderPtr i], snd (call (FormatReader_ReaderPtr env i))) (\<lambda>reader.
       case reader of
         None \<Rightarrow> read_images env info rest imagesData
       | Some r \<Rightarrow>
           bind (call (in_getDims info)) (\<lambda>dims.
           bind (index dims 3) (\<lambda>width.
           bind (index dims 2) (\<lambda>height.
           bind (call (getData r width height)) (\<lambda>data.
             read_images env info rest
               (case data of None \<Rightarrow> imagesData | Some d \<Rightarrow> imagesData @ [d]))))))"

text \<open>Lines 87 to 92.\<close>

definition set_batch :: "env \<Rightarrow> 8 word list list \<Rightarrow> nat step" where
  "set_batch env imagesData =
     bind (if imagesData = [] then throw (std_exception ''Valid input images were not found!'')
           else ret ()) (\<lambda>_.
     bind (call (setBatchSize env (length imagesData))) (\<lambda>_.
     bind (call (getBatchSize env)) (\<lambda>batchSize.
     bind (alogi ''Batch size is %zu'' [Size batchSize]) (\<lambda>_.
     ret batchSize))))"

text \<open>Lines 100 to 111: the loop over the outputs.\<close>

fun outputs_loop :: "(string \<times> Data option) list \<Rightarrow> string \<Rightarrow> string step" where
  "outputs_loop [] firstOutputName = ret firstOutputName"
| "outputs_loop (item # rest) firstOutputName =
     (case snd item of
        None \<Rightarrow> bind (alogi ''output data pointer is not valid'' []) (\<lambda>_. early_return 1)
      | Some outputData \<Rightarrow>
          bind (call (out_setPrecision outputData)) (\<lambda>_.
            outputs_loop rest (if firstOutputName = [] then fst item else firstOutputName)))"

text \<open>Lines 115 to 121.\<close>

definition outputCorrect :: "nat list \<Rightarrow> bool" where
  "outputCorrect outputDims =
     (if length outputDims = 2 then True
      else if length outputDims = 4 then outputDims ! 2 = 1 \<and> outputDims ! 3 = 1
      else False)"

text \<open>Lines 96 to 125. \<open>outputInfo.begin()\<close> of an empty map is followed undefined.\<close>

definition configure_output :: "env \<Rightarrow> string step" where
  "configure_output env =
     bind (call (getOutputsInfo env)) (\<lambda>outputInfo.
     bind (outputs_loop outputInfo []) (\<lambda>firstOutputName.
     bind (case outputInfo of
             [] \<Rightarrow> ([], Undefined)
           | item # _ \<Rightarrow> bind (arrow (snd item)) (\<lambda>d. call (out_getDims d))) (\<lambda>outputDims.
       if \<not> outputCorrect outputDims then early_return 1 else ret firstOutputName)))"

text \<open>Lines 128 to 140.\<close>

definition load_to_device :: "env \<Rightarrow> unit step" where
  "load_to_device env =
     bind (alogi ''Loading model to the device'' []) (\<lambda>_.
     bind (call (LoadNetwork env)) (\<lambda>_.
     bind (alogi ''Create infer request'' []) (\<lambda>_.
     call (CreateInferRequest env))))"

text \<open>
  Lines 152 to 161: the three loops that fill the input tensor, one byte at a time;
  \<open>None\<close> when an index is outside the tensor or outside the image.
\<close>

definition store_byte :: "8 word list \<Rightarrow> 8 word list \<Rightarrow> nat \<Rightarrow> nat \<Rightarrow> 8 word list option" where
  "store_byte data img dst src =
     (if dst < length data \<and> src < length img then Some (data[dst := img ! src]) else None)"

definition fill_tensor :: "8 word list \<Rightarrow> 8 word list list \<Rightarrow> nat \<Rightarrow> nat \<Rightarrow> 8 word list option" where
  "fill_tensor data imagesData num_channels image_size =
     fold (\<lambda>image_id.
       fold (\<lambda>pid.
         fold (\<lambda>ch acc.
           case acc of
             None \<Rightarrow> None
           | Some d \<Rightarrow>
               store_byte d (imagesData ! image_id)
                 (size_t_add
                    (size_t_add (size_t_mul (size_t_mul image_id image_size) num_channels)
                       (size_t_mul ch image_size))
                    pid)
                 (size_t_add (size_t_mul pid num_channels) ch))
         [0..<num_channels])
       [0..<image_size])
     [0..<length imagesData] (Some data)"

text \<open>Lines 144 to 162: the loop over the inputs.\<close>

fun prepare_input :: "env \<Rightarrow> (string \<times> InputInfo option) list \<Rightarrow> 8 word list list \<Rightarrow> unit step" where
  "prepare_input env [] imagesData = ret ()"
| "prepare_input env (item # rest) imagesData =
     bind (call (GetBlob_input env (fst item))) (\<lambda>inputBlob.
     bind (arrow inputBlob) (\<lambda>blob.
     bind (call (blob_getDims blob)) (\<lambda>dims.
     bind (index dims 1) (\<lambda>num_channels.
     bind (index dims 3) (\<lambda>d3.
     bind (index dims 2) (\<lambda>d2.
     bind (call (buffer blob)) (\<lambda>data.
     bind ([], case fill_tensor data imagesData num_channels (size_t_mul d3 d2) of
                 None \<Rightarrow> Undefined
               | Some d \<Rightarrow> Val ()) (\<lambda>_.
     prepare_input env rest imagesData))))))))"

text \<open>
  Lines 172 to 181: \<open>for (size_t iter = 0; iter < 1; ++iter)\<close>, with the running
  \<open>total\<close> (written \<open>total'\<close>).
\<close>

function inference_loop :: "env \<Rightarrow> nat \<Rightarrow> real \<Rightarrow> real step" where
  "inference_loop env iter total' =
     (if iter < 1
      then bind ([Call_Infer], snd (call (Infer env iter))) (\<lambda>_.
             inference_loop env (iter + 1) (total' + duration_count env iter))
      else ret total')"
  by pat_completeness auto
termination
  by (relation "measure (\<lambda>(env, iter, total'). 1 - iter)") auto

declare inference_loop.simps [simp del]

text \<open>\<open>std::numeric_limits<double>::epsilon()\<close>.\<close>

definition epsilon :: real where
  "epsilon = 1 / 2 ^ 52"

text \<open>Lines 187 to 197.\<close>

definition process_output :: "env \<Rightarrow> string \<Rightarrow> nat \<Rightarrow> real \<Rightarrow> unit step" where
  "process_output env firstOutputName batchSize total' =
     bind (alogi ''Processing output blobs'' []) (\<lambda>_.
     bind (call (GetBlob_output env firstOutputName)) (\<lambda>outputBlob.
       if \<bar>total'\<bar> < epsilon
       then bind (alogi ''total can't be equal to zero'' []) (\<lambda>_. early_return 1)
       else
         bind (alogi ''total inference time: %f'' [Double total']) (\<lambda>_.
         bind (alogi ''Average running time of one iteration: %f ms'' [Double total']) (\<lambda>_.
         bind (alogi ''Throughput: %f FPS'' [Double (real (size_t_mul 1000 batchSize) / total')]) (\<lambda>_.
         alogi ''Classification successful'' [])))))"

text \<open>Lines 29 to 200: the \<open>try\<close> block.\<close>

definition try_block :: "env \<Rightarrow> unit step" where
  "try_block env =
     bind (load_network env) (\<lambda>_.
     bind (configure_input env) (\<lambda>(inputInfo, info).
     bind (read_images env info imageNames []) (\<lambda>imagesData.
     bind (set_batch env imagesData) (\<lambda>batchSize.
     bind (configure_output env) (\<lambda>firstOutputName.
     bind (load_to_device env) (\<lambda>_.
     bind (prepare_input env inputInfo imagesData) (\<lambda>_.
     bind (inference_loop env 0 0) (\<lambda>total'.
     process_output env firstOutputName batchSize total'))))))))"

text \<open>
  \<open>main\<close>, lines 28 to 212: the trace and the exit code, \<open>None\<close> when the run has
  undefined behaviour.
\<close>

definition main :: "env \<Rightarrow> event list \<times> int option" where
  "main env =
     (case try_block env of
        (tr, Val _) \<Rightarrow> (tr @ [ALOGI ''Execution successful'' []], Some 0)
      | (tr, Return c) \<Rightarrow> (tr, Some c)
      | (tr, Throw (std_exception what)) \<Rightarrow> (tr @ [ALOGI ''Exception in Classification'' []], Some 1)
      | (tr, Throw unknown_exception) \<Rightarrow>
          (tr @ [ALOGI ''Unknown/internal exception happened.'' []], Some 1)
      | (tr, Undefined) \<Rightarrow> (tr, None))"

text \<open>The events of a trace that are not log lines.\<close>

fun is_ALOGI :: "event \<Rightarrow> bool" where
  "is_ALOGI (ALOGI fmt args) = True"
| "is_ALOGI (ReaderPtr i) = False"
| "is_ALOGI Call_Infer = False"

definition calls :: "event list \<Rightarrow> event list" where
  "calls tr = filter (\<lambda>e. \<not> is_ALOGI e) tr"

text \<open>
  The trace of a run in which nothing fails, for the batch size the network reports and
  the time measured around \<open>Infer\<close>.
\<close>

definition successful_trace :: "nat \<Rightarrow> real \<Rightarrow> event list" where
  "successful_trace batchSize total' =
     [ALOGI ''main() Enter'' [],
      ALOGI ''Creating Inference Engine'' [],
      ALOGI ''Read network files'' [],
      ALOGI ''getNetwork files'' [],
      ALOGI ''Preparing input blobs'' [],
      ReaderPtr ''/vendor/etc/openvino/car_resized.bmp'',
      ALOGI ''Batch size is %zu'' [Size batchSize],
      ALOGI ''Loading model to the device'' [],
      ALOGI ''Create infer request'' [],
      Call_Infer,
      ALOGI ''Processing output blobs'' [],
      ALOGI ''total inference time: %f'' [Double total'],
      ALOGI ''Average running time of one iteration: %f ms'' [Double total'],
      ALOGI ''Throughput: %f FPS'' [Double (real (size_t_mul 1000 batchSize) / total')],
      ALOGI ''Classification successful'' [],
      ALOGI ''Execution successful'' []]"

text \<open>
  A library for the examples: one input of 1 x 1 x 1 x 2, an image of two bytes, one
  output of 1 x 1000, and 5 ms measured around \<open>Infer\<close>.
\<close>

definition sample_env :: env where
  "sample_env =
     \<lparr>getPluginByDevice = Inr (), ReadNetwork = Inr (), ReadWeights = Inr (),
      getNetwork = Inr (),
      getInputsInfo =
        Inr [(''data'', Some \<lparr>in_setPrecision = Inr (), in_setLayout = Inr (),
                              in_getDims = Inr [1, 1, 1, 2]\<rparr>)],
      FormatReader_ReaderPtr = (\<lambda>i. Inr (Some \<lparr>getData = (\<lambda>width height. Inr (Some [7, 9]))\<rparr>)),
      setBatchSize = (\<lambda>n. Inr ()), getBatchSize = Inr 1,
      getOutputsInfo =
        Inr [(''prob'', Some \<lparr>out_setPrecision = Inr (), out_getDims = Inr [1, 1000]\<rparr>)],
      LoadNetwork = Inr (), CreateInferRequest = Inr (),
      GetBlob_input = (\<lambda>n. Inr (Some \<lparr>blob_getDims = Inr [1, 1, 1, 2], buffer = Inr [0, 0]\<rparr>)),
      Infer = (\<lambda>iter. Inr ()), duration_count = (\<lambda>iter. 5),
      GetBlob_output = (\<lambda>n. Inr (Some \<lparr>blob_getDims = Inr [1, 1000], buffer = Inr []\<rparr>))\<rparr>"

section \<open>Properties of the parameter holder\<close>



lemma RealData_eq_iff:
  "RealData_eq d e = (typeid (get d) = typeid (get e) \<and> op_eq (get d) (get e))"
  by (auto simp: RealData_eq_def RealData_is_def equal_T_def)

text \<open>
  C1. \<open>p.is<T>()\<close> is true exactly when \<open>p\<close> holds a value and the type of the held
  value is \<open>T\<close> itself; \<open>RealData<T>::is(type)\<close> is true exactly when \<open>type\<close> is \<open>T\<close>;
  an empty container (so also a default-constructed one) answers false for every type; a
  container holding an \<open>int\<close> answers false for \<open>is<long>()\<close>.
\<close>

theorem Parameter_is_exact_type:
  "(Parameter_is h p t \<longleftrightarrow> (\<exists>a. ptr p = Some a \<and> typeid (read_ref h a) = t))
   \<and> (RealData_is d t \<longleftrightarrow> t = typeid (get d))
   \<and> (Parameter_empty p \<longrightarrow> \<not> Parameter_is h p t)
   \<and> \<not> Parameter_is h Parameter_construct_empty t
   \<and> (ptr p = Some a \<and> read_ref h a = V_int i \<longrightarrow> \<not> Parameter_is h p T_long)"
  by (auto simp: Parameter_is_def Parameter_empty_def RealData_is_def read_ref_def
      Parameter_construct_empty_def)

theorem Parameter_is_exact_type_witness:
  "ptr \<lparr>ptr = Some 0\<rparr> = Some 0 \<and> read_ref [Some (RealData (V_int 5))] 0 = V_int 5
   \<and> \<not> Parameter_is [Some (RealData (V_int 5))] \<lparr>ptr = Some 0\<rparr> T_long
   \<and> Parameter_is [Some (RealData (V_int 5))] \<lparr>ptr = Some 0\<rparr> T_int
   \<and> RealData_is (RealData (V_int 5)) T_int
   \<and> Parameter_empty \<lparr>ptr = None\<rparr>
   \<and> \<not> Parameter_is [Some (RealData (V_int 5))] \<lparr>ptr = None\<rparr> T_int
   \<and> \<not> Parameter_is [Some (RealData (V_int 5))] Parameter_construct_empty T_int"
  using Parameter_is_exact_type
          [of "[Some (RealData (V_int 5))]" "\<lparr>ptr = Some 0\<rparr>" T_int "RealData (V_int 5)" 0 5]
        Parameter_is_exact_type
          [of "[Some (RealData (V_int 5))]" "\<lparr>ptr = None\<rparr>" T_int "RealData (V_int 5)" 0 5]
  by (simp add: read_ref_def deref_def Parameter_empty_def)

text \<open>
  C2. \<open>p.as<T>()\<close> fails with \<open>TypeMismatch\<close> exactly when \<open>p.is<T>()\<close> is false, so
  also on an empty container; otherwise it returns a reference to the cell the container
  itself holds (nothing is copied), the value there has type \<open>T\<close> exactly, and what is
  written through the reference is what the container holds afterwards.
\<close>

theorem Parameter_as_TypeMismatch_iff_not_is:
  "(Parameter_as h p t = Inl TypeMismatch \<longleftrightarrow> \<not> Parameter_is h p t)
   \<and> (Parameter_empty p \<longrightarrow> Parameter_as h p t = Inl TypeMismatch)
   \<and> (Parameter_is h p t \<longrightarrow>
        (\<exists>a. Parameter_as h p t = Inr a \<and> ptr p = Some a \<and> typeid (read_ref h a) = t))
   \<and> (valid h p \<and> Parameter_as h p t = Inr a \<longrightarrow>
        read_ref (write_ref h a v) (the (ptr p)) = v)"
  by (auto simp: Parameter_as_def Parameter_is_def Parameter_empty_def RealData_is_def
      read_ref_def write_ref_def deref_def valid_def live_def)

theorem Parameter_as_TypeMismatch_iff_not_is_witness:
  "valid [Some (RealData (V_string ''hello''))] \<lparr>ptr = Some 0\<rparr>
   \<and> Parameter_is [Some (RealData (V_string ''hello''))] \<lparr>ptr = Some 0\<rparr> T_string
   \<and> Parameter_as [Some (RealData (V_string ''hello''))] \<lparr>ptr = Some 0\<rparr> T_string = Inr 0
   \<and> read_ref [Some (RealData (V_string ''hello''))] 0 = V_string ''hello''
   \<and> read_ref (write_ref [Some (RealData (V_string ''hello''))] 0 (V_string ''bye'')) 0
       = V_string ''bye''
   \<and> \<not> Parameter_is [Some (RealData (V_string ''hello''))] \<lparr>ptr = Some 0\<rparr> T_int
   \<and> Parameter_as [Some (RealData (V_string ''hello''))] \<lparr>ptr = Some 0\<rparr> T_int = Inl TypeMismatch
   \<and> Parameter_empty \<lparr>ptr = None\<rparr>
   \<and> Parameter_as [Some (RealData (V_string ''hello''))] \<lparr>ptr = None\<rparr> T_string = Inl TypeMismatch"
  using Parameter_as_TypeMismatch_iff_not_is
          [of "[Some (RealData (V_string ''hello''))]" "\<lparr>ptr = Some 0\<rparr>" T_string 0
              "V_string ''bye''"]
        Parameter_as_TypeMismatch_iff_not_is
          [of "[Some (RealData (V_string ''hello''))]" "\<lparr>ptr = Some 0\<rparr>" T_int 0
              "V_string ''bye''"]
        Parameter_as_TypeMismatch_iff_not_is
          [of "[Some (RealData (V_string ''hello''))]" "\<lparr>ptr = None\<rparr>" T_string 0
              "V_string ''bye''"]
  by (simp add: valid_def live_def Parameter_is_def Parameter_empty_def RealData_is_def
      Parameter_as_def read_ref_def write_ref_def deref_def)

text \<open>
  C3. Two empty containers are equal; an empty and a non-empty one are not; two
  containers holding values of different types are not, whatever the values; two
  containers holding values of the same type \<open>T\<close> compare as \<open>T\<close>'s own \<open>==\<close> compares
  the two values.
\<close>

theorem Parameter_eq_type_then_value:
  "(Parameter_empty a \<and> Parameter_empty b \<longrightarrow> Parameter_eq h a b)
   \<and> (Parameter_empty a \<noteq> Parameter_empty b \<longrightarrow> \<not> Parameter_eq h a b)
   \<and> (ptr a = Some x \<and> ptr b = Some y \<and> typeid (read_ref h x) \<noteq> typeid (read_ref h y) \<longrightarrow>
        \<not> Parameter_eq h a b)
   \<and> (ptr a = Some x \<and> ptr b = Some y \<and> typeid (read_ref h x) = typeid (read_ref h y) \<longrightarrow>
        Parameter_eq h a b = op_eq (read_ref h x) (read_ref h y))"
  by (auto simp: Parameter_eq_def Parameter_empty_def RealData_eq_iff read_ref_def
      split: option.splits)

text \<open>
  The witness compares \<open>int(5)\<close> (cell 0) with \<open>float(5.0)\<close> (cell 1, bits
  \<open>0x40A00000\<close>), with another \<open>int(5)\<close> (cell 2), with \<open>int(6)\<close> (cell 3), and with
  an empty container.
\<close>

theorem Parameter_eq_type_then_value_witness:
  "typeid (read_ref [Some (RealData (V_int 5)), Some (RealData (V_float 0x40A00000)),
                     Some (RealData (V_int 5)), Some (RealData (V_int 6))] 0)
     \<noteq> typeid (read_ref [Some (RealData (V_int 5)), Some (RealData (V_float 0x40A00000)),
                     Some (RealData (V_int 5)), Some (RealData (V_int 6))] 1)
   \<and> \<not> Parameter_eq [Some (RealData (V_int 5)), Some (RealData (V_float 0x40A00000)),
                     Some (RealData (V_int 5)), Some (RealData (V_int 6))]
         \<lparr>ptr = Some 0\<rparr> \<lparr>ptr = Some 1\<rparr>
   \<and> Parameter_eq [Some (RealData (V_int 5)), Some (RealData (V_float 0x40A00000)),
                   Some (RealData (V_int 5)), Some (RealData (V_int 6))]
         \<lparr>ptr = Some 0\<rparr> \<lparr>ptr = Some 2\<rparr>
   \<and> \<not> Parameter_eq [Some (RealData (V_int 5)), Some (RealData (V_float 0x40A00000)),
                     Some (RealData (V_int 5)), Some (RealData (V_int 6))]
         \<lparr>ptr = Some 0\<rparr> \<lparr>ptr = Some 3\<rparr>
   \<and> Parameter_eq [Some (RealData (V_int 5)), Some (RealData (V_float 0x40A00000)),
                   Some (RealData (V_int 5)), Some (RealData (V_int 6))]
         \<lparr>ptr = None\<rparr> \<lparr>ptr = None\<rparr>
   \<and> \<not> Parameter_eq [Some (RealData (V_int 5)), Some (RealData (V_float 0x40A00000)),
                     Some (RealData (V_int 5)), Some (RealData (V_int 6))]
         \<lparr>ptr = None\<rparr> \<lparr>ptr = Some 0\<rparr>"
  using Parameter_eq_type_then_value
          [of "\<lparr>ptr = Some 0\<rparr>" "\<lparr>ptr = Some 1\<rparr>"
              "[Some (RealData (V_int 5)), Some (RealData (V_float 0x40A00000)),
                Some (RealData (V_int 5)), Some (RealData (V_int 6))]" 0 1]
        Parameter_eq_type_then_value
          [of "\<lparr>ptr = Some 0\<rparr>" "\<lparr>ptr = Some 2\<rparr>"
              "[Some (RealData (V_int 5)), Some (RealData (V_float 0x40A00000)),
                Some (RealData (V_int 5)), Some (RealData (V_int 6))]" 0 2]
        Parameter_eq_type_then_value
          [of "\<lparr>ptr = Some 0\<rparr>" "\<lparr>ptr = Some 3\<rparr>"
              "[Some (RealData (V_int 5)), Some (RealData (V_float 0x40A00000)),
                Some (RealData (V_int 5)), Some (RealData (V_int 6))]" 0 3]
        Parameter_eq_type_then_value
          [of "\<lparr>ptr = None\<rparr>" "\<lparr>ptr = None\<rparr>"
              "[Some (RealData (V_int 5)), Some (RealData (V_float 0x40A00000)),
                Some (RealData (V_int 5)), Some (RealData (V_int 6))]" 0 0]
        Parameter_eq_type_then_value
          [of "\<lparr>ptr = None\<rparr>" "\<lparr>ptr = Some 0\<rparr>"
              "[Some (RealData (V_int 5)), Some (RealData (V_float 0x40A00000)),
                Some (RealData (V_int 5)), Some (RealData (V_int 6))]" 0 0]
  by (simp add: Parameter_eq_def Parameter_empty_def RealData_eq_iff read_ref_def deref_def
      op_eq_def)

text \<open>
  C4. Constructing a container from a value \<open>v\<close> of type \<open>T\<close> always gives a well-formed,
  non-empty container with a cell of its own (the store it started from is unchanged);
  on it \<open>is<U>()\<close> is true for \<open>U = T\<close> and false for every other \<open>U\<close>, and \<open>as<T>()\<close>
  succeeds and refers to \<open>v\<close>.
\<close>

theorem Parameter_construct_round_trip:
  "case Parameter_construct h v of (h', p) \<Rightarrow>
     take (length h) h' = h \<and> valid h' p \<and> \<not> Parameter_empty p
     \<and> Parameter_is h' p t = (t = typeid v)
     \<and> (\<exists>a. Parameter_as h' p (typeid v) = Inr a \<and> read_ref h' a = v)"
  by (auto simp: Parameter_construct_def new_def valid_def live_def Parameter_empty_def
      Parameter_is_def RealData_is_def Parameter_as_def read_ref_def deref_def)

theorem Parameter_construct_round_trip_witness:
  "Parameter_construct [] (V_string ''hello'') =
     ([Some (RealData (V_string ''hello''))], \<lparr>ptr = Some 0\<rparr>)
   \<and> Parameter_is [Some (RealData (V_string ''hello''))] \<lparr>ptr = Some 0\<rparr> T_string
   \<and> \<not> Parameter_is [Some (RealData (V_string ''hello''))] \<lparr>ptr = Some 0\<rparr> T_int
   \<and> Parameter_as [Some (RealData (V_string ''hello''))] \<lparr>ptr = Some 0\<rparr> T_string = Inr 0
   \<and> read_ref [Some (RealData (V_string ''hello''))] 0 = V_string ''hello''"
  using Parameter_construct_round_trip [where h = "[]" and v = "V_string ''hello''" and t = T_string]
        Parameter_construct_round_trip [where h = "[]" and v = "V_string ''hello''" and t = T_int]
  by (simp add: Parameter_construct_def new_def Parameter_is_def Parameter_empty_def
      RealData_is_def Parameter_as_def read_ref_def deref_def)











text \<open>
  C6. After \<open>c.clear()\<close> the container is empty, \<open>is<T>()\<close> is false for every \<open>T\<close>, and
  the cell it held is no longer live, while every other cell is as it was; clearing again
  changes nothing, and clearing an empty container changes nothing; the destructor
  leaves the store exactly as \<open>clear()\<close> does.
\<close>

theorem Parameter_clear_releases:
  "case Parameter_clear h c of (h', c') \<Rightarrow>
     Parameter_empty c' \<and> (\<forall>t. \<not> Parameter_is h' c' t)
     \<and> (\<forall>a. ptr c = Some a \<longrightarrow> \<not> live h' a)
     \<and> length h' = length h \<and> (\<forall>i. ptr c \<noteq> Some i \<longrightarrow> h' ! i = h ! i)
     \<and> Parameter_clear h' c' = (h', c')
     \<and> (Parameter_empty c \<longrightarrow> (h', c') = (h, c))
     \<and> Parameter_destructor h c = h'"
  by (auto simp: Parameter_clear_def Parameter_empty_def Parameter_is_def delete_def live_def
      Parameter_destructor_def split: option.splits)

theorem Parameter_clear_releases_witness:
  "Parameter_clear [Some (RealData (V_int 5)), Some (RealData (V_bool True))] \<lparr>ptr = Some 0\<rparr>
     = ([None, Some (RealData (V_bool True))], \<lparr>ptr = None\<rparr>)
   \<and> Parameter_empty \<lparr>ptr = None\<rparr>
   \<and> \<not> live [None, Some (RealData (V_bool True))] 0
   \<and> live [None, Some (RealData (V_bool True))] 1
   \<and> Parameter_clear [None, Some (RealData (V_bool True))] \<lparr>ptr = None\<rparr>
     = ([None, Some (RealData (V_bool True))], \<lparr>ptr = None\<rparr>)
   \<and> Parameter_destructor [Some (RealData (V_int 5)), Some (RealData (V_bool True))]
       \<lparr>ptr = Some 0\<rparr> = [None, Some (RealData (V_bool True))]"
  using Parameter_clear_releases
          [where h = "[Some (RealData (V_int 5)), Some (RealData (V_bool True))]"
             and c = "\<lparr>ptr = Some 0\<rparr>"]
        Parameter_clear_releases
          [where h = "[None, Some (RealData (V_bool True))]" and c = "\<lparr>ptr = None\<rparr>"]
  by (simp add: Parameter_clear_def delete_def Parameter_empty_def live_def
      Parameter_destructor_def)

section \<open>Properties of Precision\<close>

text \<open>
  C8. \<open>hasStorageType<T>\<close> never throws: whatever the \<open>try\<close> block does, the result is a
  \<open>bool\<close>, and it is \<open>false\<close> when the block throws. For a precision other than \<open>BIN\<close>
  the result is \<open>false\<close> when \<open>sizeof(T)\<close> is not \<open>size()\<close>. For the enumerated
  precisions, when the sizes agree (or the precision is \<open>BIN\<close>, which is not checked),
  the result is whether \<open>T\<close> is one of the listed storage types.
\<close>

theorem hasStorageType_noexcept_and_storage:
  "(\<exists>b. hasStorageType size' areSameStrings p T tn = Inr b)
   \<and> (hasStorageType_try size' areSameStrings p T tn = Inl e \<longrightarrow>
        hasStorageType size' areSameStrings p T tn = Inr False)
   \<and> (precisionInfo_value p \<noteq> BIN \<and> size' p = Inr n \<and> sizeof T \<noteq> n \<longrightarrow>
        hasStorageType size' areSameStrings p T tn = Inr False)
   \<and> (enumerated (precisionInfo_value p)
        \<and> (precisionInfo_value p = BIN \<or> size' p = Inr (sizeof T)) \<longrightarrow>
        hasStorageType size' areSameStrings p T tn =
          Inr (the_type T \<in> set (listed_storage_types (precisionInfo_value p))))"
  by (cases "precisionInfo_value p")
     (auto simp: hasStorageType_def hasStorageType_try_def hasStorageType_switch_def
       enumerated_def is_same_def split: sum.splits)

text \<open>
  The witness: an \<open>FP32\<close> precision of size 4 asked for \<open>float\<close> (true), for \<open>int\<close>
  (same size, false) and for \<open>double\<close> (another size, false); the same when \<open>size()\<close>
  throws (false); and a \<open>BIN\<close> precision asked for \<open>int8_t\<close> (true, \<open>size()\<close> not
  consulted).
\<close>

theorem hasStorageType_noexcept_and_storage_witness:
  "hasStorageType (\<lambda>p. Inr 4) (\<lambda>a b. Inr (a = b))
       \<lparr>precisionInfo_bitsSize = 32, precisionInfo_name = ''FP32'', precisionInfo_value = FP32\<rparr>
       \<lparr>the_type = T_float, sizeof = 4, typeid_name = ''f''\<rparr> None = (Inr True :: unit + bool)
   \<and> hasStorageType (\<lambda>p. Inr 4) (\<lambda>a b. Inr (a = b))
       \<lparr>precisionInfo_bitsSize = 32, precisionInfo_name = ''FP32'', precisionInfo_value = FP32\<rparr>
       \<lparr>the_type = T_int, sizeof = 4, typeid_name = ''i''\<rparr> None = (Inr False :: unit + bool)
   \<and> hasStorageType (\<lambda>p. Inr 4) (\<lambda>a b. Inr (a = b))
       \<lparr>precisionInfo_bitsSize = 32, precisionInfo_name = ''FP32'', precisionInfo_value = FP32\<rparr>
       \<lparr>the_type = T_double, sizeof = 8, typeid_name = ''d''\<rparr> None = (Inr False :: unit + bool)
   \<and> hasStorageType_try (\<lambda>p. Inl ()) (\<lambda>a b. Inr (a = b))
       \<lparr>precisionInfo_bitsSize = 0, precisionInfo_name = ''FP32'', precisionInfo_value = FP32\<rparr>
       \<lparr>the_type = T_float, sizeof = 4, typeid_name = ''f''\<rparr> None = Inl ()
   \<and> hasStorageType (\<lambda>p. Inl ()) (\<lambda>a b. Inr (a = b))
       \<lparr>precisionInfo_bitsSize = 0, precisionInfo_name = ''FP32'', precisionInfo_value = FP32\<rparr>
       \<lparr>the_type = T_float, sizeof = 4, typeid_name = ''f''\<rparr> None = (Inr False :: unit + bool)
   \<and> hasStorageType (\<lambda>p. Inl ()) (\<lambda>a b. Inr (a = b))
       \<lparr>precisionInfo_bitsSize = 1, precisionInfo_name = ''BIN'', precisionInfo_value = BIN\<rparr>
       \<lparr>the_type = T_signed_char, sizeof = 1, typeid_name = ''a''\<rparr> None = (Inr True :: unit + bool)"
  using hasStorageType_noexcept_and_storage
          [of "\<lambda>p. Inr 4" "\<lambda>a b. Inr (a = b)"
              "\<lparr>precisionInfo_bitsSize = 32, precisionInfo_name = ''FP32'', precisionInfo_value = FP32\<rparr>"
              "\<lparr>the_type = T_float, sizeof = 4, typeid_name = ''f''\<rparr>" None "()" 4]
        hasStorageType_noexcept_and_storage
          [of "\<lambda>p. Inr 4" "\<lambda>a b. Inr (a = b)"
              "\<lparr>precisionInfo_bitsSize = 32, precisionInfo_name = ''FP32'', precisionInfo_value = FP32\<rparr>"
              "\<lparr>the_type = T_int, sizeof = 4, typeid_name = ''i''\<rparr>" None "()" 4]
        hasStorageType_noexcept_and_storage
          [of "\<lambda>p. Inr 4" "\<lambda>a b. Inr (a = b)"
              "\<lparr>precisionInfo_bitsSize = 32, precisionInfo_name = ''FP32'', precisionInfo_value = FP32\<rparr>"
              "\<lparr>the_type = T_double, sizeof = 8, typeid_name = ''d''\<rparr>" None "()" 4]
        hasStorageType_noexcept_and_storage
          [of "\<lambda>p. Inl ()" "\<lambda>a b. Inr (a = b)"
              "\<lparr>precisionInfo_bitsSize = 0, precisionInfo_name = ''FP32'', precisionInfo_value = FP32\<rparr>"
              "\<lparr>the_type = T_float, sizeof = 4, typeid_name = ''f''\<rparr>" None "()" 4]
        hasStorageType_noexcept_and_storage
          [of "\<lambda>p. Inl ()" "\<lambda>a b. Inr (a = b)"
              "\<lparr>precisionInfo_bitsSize = 1, precisionInfo_name = ''BIN'', precisionInfo_value = BIN\<rparr>"
              "\<lparr>the_type = T_signed_char, sizeof = 1, typeid_name = ''a''\<rparr>" None "()" 4]
  by (simp add: hasStorageType_def hasStorageType_try_def hasStorageType_switch_def is_same_def
      float_def int8_t_def uint8_t_def enumerated_def)

text \<open>
  C10. For a constructor that records its two arguments, and a type whose size in bits
  is a \<open>size_t\<close> (\<open>sizeof(T)\<close> below \<open>2^61\<close>, as for every object type of the compiler),
  \<open>fromType<T>(typeName)\<close> is a \<open>Precision\<close> of exactly \<open>8 * sizeof(T)\<close> bits, named
  \<open>typeName\<close> when that is not null and \<open>typeid(T).name()\<close> when it is.
\<close>

theorem fromType_bits_and_name:
  assumes "\<forall>b n. precisionInfo_bitsSize (ctor b n) = b \<and> precisionInfo_name (ctor b n) = n"
    and "unat (sizeof T) < 2 ^ 61"
  shows "unat (precisionInfo_bitsSize (fromType ctor T typeName)) = 8 * unat (sizeof T)
     \<and> precisionInfo_name (fromType ctor T (Some n)) = n
     \<and> precisionInfo_name (fromType ctor T None) = typeid_name T"
  using assms by (simp add: fromType_def unat_word_ariths)

theorem fromType_bits_and_name_witness:
  "(\<forall>b n. precisionInfo_bitsSize
             \<lparr>precisionInfo_bitsSize = b, precisionInfo_name = n, precisionInfo_value = Other 80\<rparr> = b
        \<and> precisionInfo_name
             \<lparr>precisionInfo_bitsSize = b, precisionInfo_name = n, precisionInfo_value = Other 80\<rparr> = n)
   \<and> unat (sizeof \<lparr>the_type = T_int, sizeof = 4, typeid_name = ''i''\<rparr>) < 2 ^ 61
   \<and> unat (precisionInfo_bitsSize
        (fromType (\<lambda>b n. \<lparr>precisionInfo_bitsSize = b, precisionInfo_name = n,
                           precisionInfo_value = Other 80\<rparr>)
           \<lparr>the_type = T_int, sizeof = 4, typeid_name = ''i''\<rparr> None)) = 32
   \<and> precisionInfo_name
        (fromType (\<lambda>b n. \<lparr>precisionInfo_bitsSize = b, precisionInfo_name = n,
                           precisionInfo_value = Other 80\<rparr>)
           \<lparr>the_type = T_int, sizeof = 4, typeid_name = ''i''\<rparr> None) = ''i''
   \<and> precisionInfo_name
        (fromType (\<lambda>b n. \<lparr>precisionInfo_bitsSize = b, precisionInfo_name = n,
                           precisionInfo_value = Other 80\<rparr>)
           \<lparr>the_type = T_int, sizeof = 4, typeid_name = ''i''\<rparr> (Some ''I32'')) = ''I32''"
  using fromType_bits_and_name
          [of "\<lambda>b n. \<lparr>precisionInfo_bitsSize = b, precisionInfo_name = n,
                       precisionInfo_value = Other 80\<rparr>"
              "\<lparr>the_type = T_int, sizeof = 4, typeid_name = ''i''\<rparr>" None "''I32''"]
  by simp

section \<open>Properties of the sample\<close>

lemma bind_Val_iff:
  "bind m f = (tr, Val y) \<longleftrightarrow>
     (\<exists>tr1 x tr2. m = (tr1, Val x) \<and> f x = (tr2, Val y) \<and> tr = tr1 @ tr2)"
  by (cases m; cases "snd m") (auto simp: bind_def split: prod.splits)

lemma basic_Val_iff:
  "ret x = (tr, Val y) \<longleftrightarrow> tr = [] \<and> y = x"
  "throw e = (tr, Val y) \<longleftrightarrow> False"
  "early_return c = (tr, Val y) \<longleftrightarrow> False"
  "alogi fmt args = (tr, Val u) \<longleftrightarrow> tr = [ALOGI fmt args]"
  "call r = (tr, Val y) \<longleftrightarrow> tr = [] \<and> r = Inr y"
  "index xs i = (tr, Val y) \<longleftrightarrow> tr = [] \<and> i < length xs \<and> y = xs ! i"
  "arrow p = (tr, Val y) \<longleftrightarrow> tr = [] \<and> p = Some y"
  by (auto simp: ret_def throw_def early_return_def alogi_def call_def index_def arrow_def
      split: sum.splits option.splits)

lemma load_network_Val:
  assumes "load_network env = (tr, Val u)"
  shows "tr = [ALOGI ''main() Enter'' [], ALOGI ''Creating Inference Engine'' [],
               ALOGI ''Read network files'' [], ALOGI ''getNetwork files'' []]"
    and "getPluginByDevice env = Inr ()" and "ReadNetwork env = Inr ()"
    and "ReadWeights env = Inr ()" and "getNetwork env = Inr ()"
  using assms
  by (auto simp: load_network_def bind_Val_iff basic_Val_iff imageNames_def)

lemma configure_input_Val:
  assumes "configure_input env = (tr, Val (inputInfo, info))"
  shows "tr = [ALOGI ''Preparing input blobs'' []]"
    and "getInputsInfo env = Inr inputInfo"
    and "length inputInfo = 1" and "snd (hd inputInfo) = Some info"
    and "in_setPrecision info = Inr ()" and "in_setLayout info = Inr ()"
  using assms
  by (auto simp: configure_input_def bind_Val_iff basic_Val_iff split: if_splits)

lemma fst_bind: "fst (bind m f) = fst m @ (case snd m of Val x \<Rightarrow> fst (f x) | _ \<Rightarrow> [])"
  by (cases m; cases "snd m") (auto simp: bind_def split: prod.splits)

lemma snd_bind:
  "snd (bind m f) =
     (case snd m of Val x \<Rightarrow> snd (f x) | Throw e \<Rightarrow> Throw e | Return c \<Rightarrow> Return c
      | Undefined \<Rightarrow> Undefined)"
  by (cases m; cases "snd m") (auto simp: bind_def split: prod.splits)

lemma fst_basic:
  "fst (ret x) = []" "fst (throw e) = []" "fst (early_return c) = []"
  "fst (alogi fmt args) = [ALOGI fmt args]" "fst (call r) = []" "fst (index xs i) = []"
  "fst (arrow p) = []"
  by (simp_all add: ret_def throw_def early_return_def alogi_def call_def index_def arrow_def)

lemma read_images_one_trace: "fst (read_images env info [p] acc) = [ReaderPtr p]"
  by (simp add: fst_bind fst_basic split: res.splits option.splits)

lemma read_images_trace:
  "fst (read_images env info imageNames acc) = [ReaderPtr ''/vendor/etc/openvino/car_resized.bmp'']"
  unfolding imageNames_def append_Nil by (rule read_images_one_trace)

lemma read_images_Val:
  assumes "read_images env info imageNames [] = (tr, Val imagesData)"
  shows "tr = [ReaderPtr ''/vendor/etc/openvino/car_resized.bmp'']"
  using read_images_trace [of env info "[]"] assms by simp

lemma set_batch_Val:
  assumes "set_batch env imagesData = (tr, Val batchSize)"
  shows "tr = [ALOGI ''Batch size is %zu'' [Size batchSize]]"
    and "imagesData \<noteq> []" and "setBatchSize env (length imagesData) = Inr ()"
    and "getBatchSize env = Inr batchSize"
  using assms
  by (auto simp: set_batch_def bind_Val_iff basic_Val_iff split: if_splits)

lemma outputs_loop_Val:
  "outputs_loop outputInfo n = (tr, Val firstOutputName) \<Longrightarrow>
     tr = [] \<and> (\<forall>item\<in>set outputInfo. \<exists>d. snd item = Some d \<and> out_setPrecision d = Inr ())"
proof (induction outputInfo n arbitrary: tr rule: outputs_loop.induct)
  case (1 firstOutputName)
  then show ?case by (simp add: basic_Val_iff)
next
  case (2 item rest n)
  then show ?case
    by (cases "snd item") (auto simp: bind_Val_iff basic_Val_iff)
qed

lemma configure_output_Val:
  assumes "configure_output env = (tr, Val firstOutputName)"
  shows "tr = []"
    and "\<exists>outputInfo item rest d outputDims.
           getOutputsInfo env = Inr outputInfo \<and> outputInfo = item # rest
           \<and> (\<forall>item\<in>set outputInfo. \<exists>d. snd item = Some d \<and> out_setPrecision d = Inr ())
           \<and> snd item = Some d \<and> out_getDims d = Inr outputDims \<and> outputCorrect outputDims"
proof -
  from assms obtain outputInfo tr1 n tr2 outputDims where
    g: "getOutputsInfo env = Inr outputInfo" and
    l: "outputs_loop outputInfo [] = (tr1, Val n)" and
    d: "(case outputInfo of [] \<Rightarrow> ([], Undefined)
         | item # _ \<Rightarrow> bind (arrow (snd item)) (\<lambda>d. call (out_getDims d))) = (tr2, Val outputDims)" and
    c: "outputCorrect outputDims" and tr: "tr = tr1 @ tr2"
    by (auto simp: configure_output_def bind_Val_iff basic_Val_iff split: if_splits)
  from outputs_loop_Val [OF l] have tr1: "tr1 = []"
    and a: "\<forall>item\<in>set outputInfo. \<exists>d. snd item = Some d \<and> out_setPrecision d = Inr ()"
    by simp_all
  from d obtain item rest where o: "outputInfo = item # rest" by (cases outputInfo) auto
  with d obtain dd where dd: "snd item = Some dd" "out_getDims dd = Inr outputDims" "tr2 = []"
    by (auto simp: bind_Val_iff basic_Val_iff)
  show "tr = []" using tr tr1 dd by simp
  show "\<exists>outputInfo item rest d outputDims.
           getOutputsInfo env = Inr outputInfo \<and> outputInfo = item # rest
           \<and> (\<forall>item\<in>set outputInfo. \<exists>d. snd item = Some d \<and> out_setPrecision d = Inr ())
           \<and> snd item = Some d \<and> out_getDims d = Inr outputDims \<and> outputCorrect outputDims"
    using g o a dd c by blast
qed

lemma load_to_device_Val:
  assumes "load_to_device env = (tr, Val u)"
  shows "tr = [ALOGI ''Loading model to the device'' [], ALOGI ''Create infer request'' []]"
    and "LoadNetwork env = Inr ()" and "CreateInferRequest env = Inr ()"
  using assms
  by (auto simp: load_to_device_def bind_Val_iff basic_Val_iff)

lemma prepare_input_trace: "fst (prepare_input env inputInfo imagesData) = []"
proof (induction inputInfo)
  case Nil
  then show ?case by (simp add: ret_def)
next
  case (Cons item rest)
  then show ?case
    by (auto simp: bind_def call_def arrow_def index_def
        split: prod.splits res.splits sum.splits option.splits)
qed

lemma inference_loop_once:
  "inference_loop env 0 0 =
     ([Call_Infer], case Infer env 0 of Inl e \<Rightarrow> Throw e | Inr u \<Rightarrow> Val (duration_count env 0))"
proof -
  have 1: "inference_loop env (Suc 0) t = ret t" for t
    by (subst inference_loop.simps) simp
  show ?thesis
    by (subst inference_loop.simps) (simp add: 1 bind_def ret_def call_def split: sum.splits)
qed

lemma process_output_Val:
  assumes "process_output env firstOutputName batchSize t = (tr, Val u)"
  shows "tr = [ALOGI ''Processing output blobs'' [], ALOGI ''total inference time: %f'' [Double t],
               ALOGI ''Average running time of one iteration: %f ms'' [Double t],
               ALOGI ''Throughput: %f FPS'' [Double (real (size_t_mul 1000 batchSize) / t)],
               ALOGI ''Classification successful'' []]"
    and "\<exists>b. GetBlob_output env firstOutputName = Inr b" and "epsilon \<le> \<bar>t\<bar>"
  using assms
  by (auto simp: process_output_def bind_Val_iff basic_Val_iff split: if_splits)

lemma snd_basic:
  "snd (ret x) = Val x" "snd (throw e) = Throw e" "snd (early_return c) = Return c"
  "snd (alogi fmt args) = Val ()"
  "snd (call r) = (case r of Inl e \<Rightarrow> Throw e | Inr v \<Rightarrow> Val v)"
  "snd (index xs i) = (if i < length xs then Val (xs ! i) else Undefined)"
  "snd (arrow p) = (case p of None \<Rightarrow> Undefined | Some x \<Rightarrow> Val x)"
  by (simp_all add: ret_def throw_def early_return_def alogi_def call_def index_def arrow_def)

lemma calls_simps:
  "calls [] = []" "calls (tr1 @ tr2) = calls tr1 @ calls tr2"
  "calls (ALOGI fmt args # tr) = calls tr" "calls (ReaderPtr i # tr) = ReaderPtr i # calls tr"
  "calls (Call_Infer # tr) = Call_Infer # calls tr"
  by (simp_all add: calls_def)

text \<open>No phase but the image loop and the inference loop leaves anything but log lines.\<close>

lemma load_network_calls: "calls (fst (load_network env)) = []"
  by (simp add: load_network_def fst_bind fst_basic snd_basic snd_bind calls_simps imageNames_def
      split: res.splits sum.splits)

lemma configure_input_calls: "calls (fst (configure_input env)) = []"
  by (simp add: configure_input_def fst_bind fst_basic snd_basic snd_bind calls_simps
      split: res.splits sum.splits)

lemma set_batch_calls: "calls (fst (set_batch env imagesData)) = []"
  by (simp add: set_batch_def fst_bind fst_basic snd_basic snd_bind calls_simps
      split: res.splits sum.splits)

lemma outputs_loop_calls: "calls (fst (outputs_loop outputInfo n)) = []"
  by (induction outputInfo arbitrary: n)
     (simp_all add: fst_bind fst_basic snd_basic snd_bind calls_simps
       split: res.splits sum.splits option.splits)

lemma configure_output_calls: "calls (fst (configure_output env)) = []"
  by (simp add: configure_output_def fst_bind fst_basic snd_basic snd_bind calls_simps
      outputs_loop_calls split: res.splits sum.splits list.splits)

lemma load_to_device_calls: "calls (fst (load_to_device env)) = []"
  by (simp add: load_to_device_def fst_bind fst_basic snd_basic snd_bind calls_simps
      split: res.splits sum.splits)

lemma process_output_calls: "calls (fst (process_output env n b t)) = []"
  by (simp add: process_output_def fst_bind fst_basic snd_basic snd_bind calls_simps
      split: res.splits sum.splits)

lemma try_block_calls:
  "calls (fst (try_block env)) = []
   \<or> calls (fst (try_block env)) = [ReaderPtr ''/vendor/etc/openvino/car_resized.bmp'']
   \<or> calls (fst (try_block env)) = [ReaderPtr ''/vendor/etc/openvino/car_resized.bmp'', Call_Infer]"
  by (simp add: try_block_def fst_bind snd_bind calls_simps load_network_calls
      configure_input_calls set_batch_calls configure_output_calls load_to_device_calls
      process_output_calls prepare_input_trace inference_loop_once read_images_trace
      split: res.splits prod.splits)

text \<open>The only early return is \<open>return 1\<close>.\<close>

lemma load_network_Return: "snd (load_network env) \<noteq> Return c"
  by (simp add: load_network_def snd_bind snd_basic imageNames_def split: res.splits sum.splits)

lemma configure_input_Return: "snd (configure_input env) \<noteq> Return c"
  by (simp add: configure_input_def snd_bind snd_basic split: res.splits sum.splits option.splits)

lemma read_images_Return: "snd (read_images env info names acc) \<noteq> Return c"
  by (induction env info names acc rule: read_images.induct)
     (simp_all add: snd_bind snd_basic split: res.splits sum.splits option.splits)

lemma set_batch_Return: "snd (set_batch env imagesData) \<noteq> Return c"
  by (simp add: set_batch_def snd_bind snd_basic split: res.splits sum.splits)

lemma outputs_loop_Return: "snd (outputs_loop outputInfo n) = Return c \<Longrightarrow> c = 1"
  by (induction outputInfo arbitrary: n)
     (auto simp: snd_bind snd_basic split: res.splits sum.splits option.splits)

lemma configure_output_Return: "snd (configure_output env) = Return c \<Longrightarrow> c = 1"
  by (auto simp: configure_output_def snd_bind snd_basic dest: outputs_loop_Return
      split: res.splits sum.splits option.splits list.splits if_splits)

lemma load_to_device_Return: "snd (load_to_device env) \<noteq> Return c"
  by (simp add: load_to_device_def snd_bind snd_basic split: res.splits sum.splits)

lemma prepare_input_Return: "snd (prepare_input env inputInfo imagesData) \<noteq> Return c"
  by (induction inputInfo)
     (simp_all add: snd_bind snd_basic split: res.splits sum.splits option.splits)

lemma process_output_Return: "snd (process_output env n b t) = Return c \<Longrightarrow> c = 1"
  by (auto simp: process_output_def snd_bind snd_basic split: res.splits sum.splits if_splits)

lemma try_block_Return: "snd (try_block env) = Return c \<Longrightarrow> c = 1"
  by (auto simp: try_block_def snd_bind load_network_Return configure_input_Return
      read_images_Return set_batch_Return load_to_device_Return prepare_input_Return
      inference_loop_once
      dest!: configure_output_Return process_output_Return
      split: res.splits prod.splits sum.splits)

lemma prepare_input_Val:
  "prepare_input env inputInfo imagesData = (tr, Val u) \<Longrightarrow> tr = []"
  using prepare_input_trace [of env inputInfo imagesData] by simp

lemma inference_loop_Val:
  assumes "inference_loop env 0 0 = (tr, Val t)"
  shows "tr = [Call_Infer]" and "Infer env 0 = Inr ()" and "t = duration_count env 0"
  using assms by (auto simp: inference_loop_once split: sum.splits)

lemma try_block_Val:
  assumes "try_block env = (tr, Val u)"
  shows "\<exists>batchSize. getBatchSize env = Inr batchSize
           \<and> tr @ [ALOGI ''Execution successful'' []] =
               successful_trace batchSize (duration_count env 0)"
    and "getPluginByDevice env = Inr ()" and "ReadNetwork env = Inr ()"
    and "ReadWeights env = Inr ()" and "getNetwork env = Inr ()"
    and "\<exists>inputInfo. getInputsInfo env = Inr inputInfo \<and> length inputInfo = 1"
    and "\<exists>outputInfo item rest d outputDims.
           getOutputsInfo env = Inr outputInfo \<and> outputInfo = item # rest
           \<and> (\<forall>item\<in>set outputInfo. \<exists>d. snd item = Some d \<and> out_setPrecision d = Inr ())
           \<and> snd item = Some d \<and> out_getDims d = Inr outputDims \<and> outputCorrect outputDims"
    and "LoadNetwork env = Inr ()" and "CreateInferRequest env = Inr ()"
    and "Infer env 0 = Inr ()" and "epsilon \<le> \<bar>duration_count env 0\<bar>"
proof -
  from assms obtain t1 t2 t3 t4 t5 t6 t7 t8 t9 inputInfo info imagesData batchSize
      firstOutputName t where
    p1: "load_network env = (t1, Val ())" and
    p2: "configure_input env = (t2, Val (inputInfo, info))" and
    p3: "read_images env info imageNames [] = (t3, Val imagesData)" and
    p4: "set_batch env imagesData = (t4, Val batchSize)" and
    p5: "configure_output env = (t5, Val firstOutputName)" and
    p6: "load_to_device env = (t6, Val ())" and
    p7: "prepare_input env inputInfo imagesData = (t7, Val ())" and
    p8: "inference_loop env 0 0 = (t8, Val t)" and
    p9: "process_output env firstOutputName batchSize t = (t9, Val ())" and
    tr: "tr = t1 @ t2 @ t3 @ t4 @ t5 @ t6 @ t7 @ t8 @ t9"
    by (auto simp: try_block_def bind_Val_iff)
  note f1 = load_network_Val [OF p1] and f2 = configure_input_Val [OF p2]
    and f3 = read_images_Val [OF p3] and f4 = set_batch_Val [OF p4]
    and f5 = configure_output_Val [OF p5] and f6 = load_to_device_Val [OF p6]
    and f7 = prepare_input_Val [OF p7] and f8 = inference_loop_Val [OF p8]
  note f9 = process_output_Val [OF p9 [unfolded f8(3)]]
  have "tr @ [ALOGI ''Execution successful'' []] = successful_trace batchSize (duration_count env 0)"
    unfolding tr f1(1) f2(1) f3 f4(1) f5(1) f6(1) f7 f8(1) f9(1) successful_trace_def by simp
  with f4(4) show "\<exists>batchSize. getBatchSize env = Inr batchSize
           \<and> tr @ [ALOGI ''Execution successful'' []] =
               successful_trace batchSize (duration_count env 0)" by blast
  show "getPluginByDevice env = Inr ()" "ReadNetwork env = Inr ()"
    "ReadWeights env = Inr ()" "getNetwork env = Inr ()" by (rule f1)+
  show "\<exists>inputInfo. getInputsInfo env = Inr inputInfo \<and> length inputInfo = 1"
    using f2(2,3) by blast
  show "\<exists>outputInfo item rest d outputDims.
           getOutputsInfo env = Inr outputInfo \<and> outputInfo = item # rest
           \<and> (\<forall>item\<in>set outputInfo. \<exists>d. snd item = Some d \<and> out_setPrecision d = Inr ())
           \<and> snd item = Some d \<and> out_getDims d = Inr outputDims \<and> outputCorrect outputDims"
    by (rule f5(2))
  show "LoadNetwork env = Inr ()" "CreateInferRequest env = Inr ()" by (rule f6)+
  show "Infer env 0 = Inr ()" by (rule f8(2))
  show "epsilon \<le> \<bar>duration_count env 0\<bar>" by (rule f9(3))
qed

lemma main_cases:
  "(\<exists>tr. try_block env = (tr, Val ()) \<and> main env = (tr @ [ALOGI ''Execution successful'' []], Some 0))
   \<or> (\<exists>tr e l. try_block env = (tr, Throw e) \<and> main env = (tr @ [ALOGI l []], Some 1))
   \<or> (\<exists>tr. try_block env = (tr, Return 1) \<and> main env = (tr, Some 1))
   \<or> (\<exists>tr. try_block env = (tr, Undefined) \<and> main env = (tr, None))"
proof (cases "try_block env")
  case (Pair tr r)
  show ?thesis
  proof (cases r)
    case (Val u) with Pair show ?thesis by (simp add: main_def)
  next
    case (Throw e) with Pair show ?thesis by (cases e) (simp_all add: main_def)
  next
    case (Return c)
    with Pair try_block_Return [of env c] show ?thesis by (simp add: main_def)
  next
    case Undefined with Pair show ?thesis by (simp add: main_def)
  qed
qed

lemma main_calls: "calls (fst (main env)) = calls (fst (try_block env))"
  using main_cases [of env] by (auto simp: calls_simps)

lemma main_zero:
  "snd (main env) = Some 0 \<Longrightarrow>
     \<exists>tr. try_block env = (tr, Val ()) \<and> fst (main env) = tr @ [ALOGI ''Execution successful'' []]"
  using main_cases [of env] by auto

lemma outputCorrect_iff:
  "outputCorrect outputDims \<longleftrightarrow>
     length outputDims = 2 \<or> length outputDims = 4 \<and> outputDims ! 2 = 1 \<and> outputDims ! 3 = 1"
  by (auto simp: outputCorrect_def)

text \<open>Evaluating the sample run.\<close>

lemmas step_defs =
  bind_def ret_def throw_def early_return_def alogi_def call_def index_def arrow_def

lemma fill_tensor_sample: "fill_tensor [0, 0] [[7, 9]] (Suc 0) 2 = Some [7, 9]"
  by (simp add: fill_tensor_def store_byte_def size_t_mul_def size_t_add_def upt_rec)

lemmas eval_main =
  main_def try_block_def load_network_def configure_input_def imageNames_def set_batch_def
  configure_output_def outputCorrect_def load_to_device_def process_output_def epsilon_def
  sample_env_def step_defs fill_tensor_sample size_t_mul_def inference_loop_once
  successful_trace_def calls_def

text \<open>
  C7. The vector of image paths is the one hardcoded path. In every run the calls that
  \<open>main\<close> makes besides logging are: nothing, or the opening of that one image, or the
  opening of that one image followed by one call of \<open>Infer\<close>; so \<open>Infer\<close> is never
  called twice and no other image is ever opened. A run that ends with exit code 0 does
  exactly this, in this order: it opens the one image, calls \<open>Infer\<close> once, and then logs
  the measured time (the total, the average and the throughput).
\<close>

theorem sample_single_shot:
  "imageNames = [''/vendor/etc/openvino/car_resized.bmp'']
   \<and> (calls (fst (main env)) = []
      \<or> calls (fst (main env)) = [ReaderPtr ''/vendor/etc/openvino/car_resized.bmp'']
      \<or> calls (fst (main env)) = [ReaderPtr ''/vendor/etc/openvino/car_resized.bmp'', Call_Infer])
   \<and> (snd (main env) = Some 0 \<longrightarrow>
        (\<exists>batchSize. getBatchSize env = Inr batchSize
           \<and> fst (main env) = successful_trace batchSize (duration_count env 0)))"
proof (intro conjI impI)
  show "imageNames = [''/vendor/etc/openvino/car_resized.bmp'']" by (simp add: imageNames_def)
  show "calls (fst (main env)) = []
      \<or> calls (fst (main env)) = [ReaderPtr ''/vendor/etc/openvino/car_resized.bmp'']
      \<or> calls (fst (main env)) = [ReaderPtr ''/vendor/etc/openvino/car_resized.bmp'', Call_Infer]"
    unfolding main_calls by (rule try_block_calls)
  assume "snd (main env) = Some 0"
  from main_zero [OF this] obtain tr where t: "try_block env = (tr, Val ())"
    and m: "fst (main env) = tr @ [ALOGI ''Execution successful'' []]" by blast
  from try_block_Val(1) [OF t] m
  show "\<exists>batchSize. getBatchSize env = Inr batchSize
           \<and> fst (main env) = successful_trace batchSize (duration_count env 0)" by simp
qed

theorem sample_single_shot_witness:
  "snd (main sample_env) = Some 0
   \<and> getBatchSize sample_env = Inr 1
   \<and> fst (main sample_env) = successful_trace 1 5
   \<and> calls (fst (main sample_env)) =
       [ReaderPtr ''/vendor/etc/openvino/car_resized.bmp'', Call_Infer]"
  using sample_single_shot [of sample_env]
  by (simp add: eval_main)

text \<open>
  C9, as amended. In a run without undefined behaviour the exit code is 0 or 1. It is 0 only when
  the \<open>try\<close> block runs to its end: the calls of the library returned (plugin, model
  and weights, network, inputs, loading, infer request, \<open>Infer\<close>) and there was exactly
  one input. It is 1 whenever an exception of either kind leaves the \<open>try\<close> block (so
  whenever one of those calls throws), whenever one of the outputs has a null data
  pointer, whenever the dimensions of the first output are neither two, nor four with
  the last two equal to 1, and whenever the absolute value of the measured total time
  is below \<open>epsilon\<close> (line 189 compares \<open>std::fabs(total)\<close>).
\<close>

theorem main_exit_code:
  assumes "snd (main env) = Some c"
  shows "(c = 0 \<or> c = 1)
     \<and> (c = 0 \<longrightarrow>
          snd (try_block env) = Val ()
          \<and> getPluginByDevice env = Inr () \<and> ReadNetwork env = Inr ()
          \<and> ReadWeights env = Inr () \<and> getNetwork env = Inr ()
          \<and> (\<exists>inputInfo. getInputsInfo env = Inr inputInfo \<and> length inputInfo = 1)
          \<and> LoadNetwork env = Inr () \<and> CreateInferRequest env = Inr ()
          \<and> Infer env 0 = Inr ())
     \<and> (\<forall>e. snd (try_block env) = Throw e \<longrightarrow> c = 1)
     \<and> (\<forall>e. getPluginByDevice env = Inl e \<or> ReadNetwork env = Inl e \<or> ReadWeights env = Inl e
            \<or> getNetwork env = Inl e \<or> getInputsInfo env = Inl e \<or> getBatchSize env = Inl e
            \<or> getOutputsInfo env = Inl e \<or> LoadNetwork env = Inl e
            \<or> CreateInferRequest env = Inl e \<or> Infer env 0 = Inl e
          \<longrightarrow> c = 1)
     \<and> (\<forall>outputInfo. getOutputsInfo env = Inr outputInfo \<and> (\<exists>item\<in>set outputInfo. snd item = None)
          \<longrightarrow> c = 1)
     \<and> (\<forall>item rest d outputDims.
          getOutputsInfo env = Inr (item # rest) \<and> snd item = Some d
          \<and> out_getDims d = Inr outputDims
          \<and> \<not> (length outputDims = 2
                \<or> length outputDims = 4 \<and> outputDims ! 2 = 1 \<and> outputDims ! 3 = 1)
          \<longrightarrow> c = 1)
     \<and> (\<bar>duration_count env 0\<bar> < epsilon \<longrightarrow> c = 1)"
proof -
  from main_cases [of env] assms have c01: "c = 0 \<or> c = 1" by auto
  have zero: "\<exists>t. try_block env = (t, Val ())" if "c = 0"
    using main_cases [of env] assms that by auto
  have z1: "snd (try_block env) = Val ()" if "c = 0" using zero [OF that] by auto
  have thr: "c = 1" if "snd (try_block env) = Throw e" for e
    using main_cases [of env] assms that by auto
  have nul: "c = 1"
    if "getOutputsInfo env = Inr outputInfo" "\<exists>item\<in>set outputInfo. snd item = None"
    for outputInfo
  proof (rule ccontr)
    assume "c \<noteq> 1"
    with c01 have "c = 0" by simp
    from zero [OF this] obtain t where "try_block env = (t, Val ())" ..
    from try_block_Val(7) [OF this] that show False by auto
  qed
  have dims: "c = 1"
    if "getOutputsInfo env = Inr (item # rest)" "snd item = Some d" "out_getDims d = Inr outputDims"
      "\<not> (length outputDims = 2 \<or> length outputDims = 4 \<and> outputDims ! 2 = 1 \<and> outputDims ! 3 = 1)"
    for item rest d outputDims
  proof (rule ccontr)
    assume "c \<noteq> 1"
    with c01 have "c = 0" by simp
    from zero [OF this] obtain t where "try_block env = (t, Val ())" ..
    from try_block_Val(7) [OF this] that show False by (auto simp: outputCorrect_iff)
  qed
  have eps: "c = 1" if "\<bar>duration_count env 0\<bar> < epsilon"
  proof (rule ccontr)
    assume "c \<noteq> 1"
    with c01 have "c = 0" by simp
    from zero [OF this] obtain t where "try_block env = (t, Val ())" ..
    from try_block_Val(11) [OF this] that show False by simp
  qed
  have ok: "getPluginByDevice env = Inr () \<and> ReadNetwork env = Inr ()
          \<and> ReadWeights env = Inr () \<and> getNetwork env = Inr ()
          \<and> (\<exists>inputInfo. getInputsInfo env = Inr inputInfo \<and> length inputInfo = 1)
          \<and> LoadNetwork env = Inr () \<and> CreateInferRequest env = Inr ()
          \<and> Infer env 0 = Inr ()" if "c = 0"
  proof -
    from zero [OF that] obtain t where t: "try_block env = (t, Val ())" ..
    show ?thesis
      using try_block_Val(2-6) [OF t] try_block_Val(8-10) [OF t] by simp
  qed
  have calls_throw: "c = 1"
    if "getPluginByDevice env = Inl e \<or> ReadNetwork env = Inl e \<or> ReadWeights env = Inl e
            \<or> getNetwork env = Inl e \<or> getInputsInfo env = Inl e \<or> getBatchSize env = Inl e
            \<or> getOutputsInfo env = Inl e \<or> LoadNetwork env = Inl e
            \<or> CreateInferRequest env = Inl e \<or> Infer env 0 = Inl e" for e
  proof (rule ccontr)
    assume "c \<noteq> 1"
    with c01 have "c = 0" by simp
    from zero [OF this] obtain t where t: "try_block env = (t, Val ())" ..
    from try_block_Val [OF t] that show False by auto
  qed
  show ?thesis
  proof (intro conjI allI impI)
    show "c = 0 \<or> c = 1" by (rule c01)
  qed (use z1 thr nul dims eps ok calls_throw in blast)+
qed

text \<open>
  The witness: the sample run (exit code 0), and the same run when \<open>Infer\<close> throws
  something that is not a \<open>std::exception\<close>, when the plugin is not found, when the
  output's data pointer is null, when the output is 1 x 1000 x 2 x 1, and when no time
  is measured (exit code 1 each time).
\<close>

theorem main_exit_code_witness:
  "snd (main sample_env) = Some 0
   \<and> snd (try_block sample_env) = Val ()
   \<and> Infer sample_env 0 = Inr ()
   \<and> snd (try_block (sample_env\<lparr>Infer := \<lambda>iter. Inl unknown_exception\<rparr>)) = Throw unknown_exception
   \<and> snd (main (sample_env\<lparr>Infer := \<lambda>iter. Inl unknown_exception\<rparr>)) = Some 1
   \<and> snd (try_block (sample_env\<lparr>getPluginByDevice := Inl (std_exception ''no plugin'')\<rparr>))
       = Throw (std_exception ''no plugin'')
   \<and> snd (main (sample_env\<lparr>getPluginByDevice := Inl (std_exception ''no plugin'')\<rparr>)) = Some 1
   \<and> getOutputsInfo (sample_env\<lparr>getOutputsInfo := Inr [(''prob'', None)]\<rparr>)
       = Inr [(''prob'', None)]
   \<and> snd (main (sample_env\<lparr>getOutputsInfo := Inr [(''prob'', None)]\<rparr>)) = Some 1
   \<and> snd (main (sample_env\<lparr>getOutputsInfo :=
        Inr [(''prob'', Some \<lparr>out_setPrecision = Inr (), out_getDims = Inr [1, 1000, 2, 1]\<rparr>)]\<rparr>))
       = Some 1
   \<and> \<bar>duration_count (sample_env\<lparr>duration_count := \<lambda>iter. 0\<rparr>) 0\<bar> < epsilon
   \<and> snd (main (sample_env\<lparr>duration_count := \<lambda>iter. 0\<rparr>)) = Some 1"
  using main_exit_code [of sample_env 0]
        main_exit_code [of "sample_env\<lparr>Infer := \<lambda>iter. Inl unknown_exception\<rparr>" 1]
        main_exit_code [of "sample_env\<lparr>getPluginByDevice := Inl (std_exception ''no plugin'')\<rparr>" 1]
        main_exit_code [of "sample_env\<lparr>getOutputsInfo := Inr [(''prob'', None)]\<rparr>" 1]
        main_exit_code [of "sample_env\<lparr>getOutputsInfo :=
          Inr [(''prob'', Some \<lparr>out_setPrecision = Inr (), out_getDims = Inr [1, 1000, 2, 1]\<rparr>)]\<rparr>" 1]
        main_exit_code [of "sample_env\<lparr>duration_count := \<lambda>iter. 0\<rparr>" 1]
  by (simp add: eval_main)

text \<open>
  C9 as stated fails: when the clock steps back across \<open>Infer\<close> and the measured total
  is -5 ms, the total is below \<open>epsilon\<close> but its absolute value is not, and the sample
  run ends with exit code 0.
\<close>

theorem main_exit_code_negative_total_counterexample:
  "duration_count (sample_env\<lparr>duration_count := \<lambda>iter. - 5\<rparr>) 0 < epsilon
   \<and> snd (main (sample_env\<lparr>duration_count := \<lambda>iter. - 5\<rparr>)) = Some 0
   \<and> snd (main (sample_env\<lparr>duration_count := \<lambda>iter. - 5\<rparr>)) \<noteq> Some 1"
  by (simp add: eval_main)

end
